theory Spec2Isabelle
  imports Main
begin

section \<open>PygButton: data model\<close>

text \<open>
  The module \<^verbatim>\<open>src/data/pygbutton.py\<close> defines one class, \<^verbatim>\<open>PygButton\<close>. Its
  collaborators from pygame (rectangles, surfaces, fonts, events) are modelled by the
  small value types below: a rectangle is its four integers, a surface is the term that
  says how it was made, an event is its type and position.
\<close>

type_synonym color = "nat \<times> nat \<times> nat"
type_synonym point = "int \<times> int"

definition BLACK :: color where "BLACK = (0, 0, 0)"
definition WHITE :: color where "WHITE = (255, 255, 255)"
definition DARKGRAY :: color where "DARKGRAY = (64, 64, 64)"
definition GRAY :: color where "GRAY = (128, 128, 128)"
definition LIGHTGRAY :: color where "LIGHTGRAY = (212, 208, 200)"

text \<open>A \<^verbatim>\<open>pygame.font.Font\<close>: the file it was made from and its point size.\<close>

datatype font = Font string nat

definition PYGBUTTON_FONT :: font where
  "PYGBUTTON_FONT = Font ''freesansbold.ttf'' 14"

text \<open>A \<^verbatim>\<open>pygame.Rect\<close>: left, top, width, height.\<close>

record pyrect =
  rect_left :: int
  rect_top :: int
  rect_width :: int
  rect_height :: int

definition Rect :: "int \<Rightarrow> int \<Rightarrow> int \<Rightarrow> int \<Rightarrow> pyrect" where
  "Rect l t w h = \<lparr>rect_left = l, rect_top = t, rect_width = w, rect_height = h\<rparr>"

definition rect_size :: "pyrect \<Rightarrow> int \<times> int" where
  "rect_size r = (rect_width r, rect_height r)"

text \<open>
  \<^verbatim>\<open>Rect.collidepoint\<close>, as pygame documents it: a point on the left or top edge is
  inside, a point on the right or bottom edge is not.
\<close>

definition collidepoint :: "pyrect \<Rightarrow> point \<Rightarrow> bool" where
  "collidepoint r p =
     (rect_left r \<le> fst p \<and> fst p < rect_left r + rect_width r \<and>
      rect_top r \<le> snd p \<and> snd p < rect_top r + rect_height r)"

text \<open>
  The drawing calls that \<^verbatim>\<open>_update\<close> makes on a surface, and surfaces as the history
  of how they were obtained: created blank (\<^verbatim>\<open>pygame.Surface(size)\<close>), decoded from
  a picture, produced by \<^verbatim>\<open>pygame.transform.smoothscale\<close>, or drawn on. Surfaces are
  values here; the sharing of one surface object between two attributes is not tracked.
\<close>

datatype draw_op =
    Fill color
  | BlitCaption font string color color point
  | DrawRect color pyrect nat
  | DrawLine color point point

datatype surface =
    Blank "int \<times> int"
  | Picture string "int \<times> int"
  | Smoothscale surface "int \<times> int"
  | Drawn surface draw_op

fun get_size :: "surface \<Rightarrow> int \<times> int" where
  "get_size (Blank sz) = sz"
| "get_size (Picture name sz) = sz"
| "get_size (Smoothscale s sz) = sz"
| "get_size (Drawn s d) = get_size s"

definition get_width :: "surface \<Rightarrow> int" where
  "get_width s = fst (get_size s)"

definition get_height :: "surface \<Rightarrow> int" where
  "get_height s = snd (get_size s)"

text \<open>Events: the three pointer event types the button looks at, and every other type.\<close>

datatype event_type = MOUSEMOTION | MOUSEBUTTONUP | MOUSEBUTTONDOWN | OTHEREVENT

record event =
  etype :: event_type
  pos :: point

text \<open>
  The attributes of a \<^verbatim>\<open>PygButton\<close> object. A surface attribute that has not been
  assigned yet is \<open>None\<close>: reading it raises \<^verbatim>\<open>AttributeError\<close> in Python.
\<close>

record pygbutton =
  rect :: pyrect
  caption :: string
  bgcolor :: color
  fgcolor :: color
  font :: font
  buttonDown :: bool
  mouseOverButton :: bool
  lastMouseDownOverButton :: bool
  visible :: bool
  customSurfaces :: bool
  surfaceNormal :: "surface option"
  surfaceDown :: "surface option"
  surfaceHighlight :: "surface option"
  origSurfaceNormal :: "surface option"
  origSurfaceDown :: "surface option"
  origSurfaceHighlight :: "surface option"

datatype error = AttributeError | PygameError | Exception_foo

section \<open>handle_event\<close>

text \<open>
  The hooks \<^verbatim>\<open>mouse_enter\<close>, \<^verbatim>\<open>mouse_move\<close>, ... of the class do nothing, and each is
  called immediately before its signal is appended to \<^verbatim>\<open>ret_val\<close>, so the returned
  list is also the order of the hook calls.

  The method is split at its four blocks: the enter/exit test, the block for an event
  over the button or off it, the block for \<^verbatim>\<open>MOUSEBUTTONUP\<close>, and the deferred exit.
\<close>

definition enter_exit ::
  "event \<Rightarrow> pygbutton \<Rightarrow> string list \<times> bool \<times> pygbutton" where
  "enter_exit ev b =
     (if \<not> mouseOverButton b \<and> collidepoint (rect b) (pos ev)
      then ([''enter''], False, b\<lparr>mouseOverButton := True\<rparr>)
      else if mouseOverButton b \<and> \<not> collidepoint (rect b) (pos ev)
      then ([], True, b\<lparr>mouseOverButton := False\<rparr>)
      else ([], False, b))"

definition over_button :: "event \<Rightarrow> string list \<times> pygbutton \<Rightarrow> string list \<times> pygbutton" where
  "over_button ev rb =
     (case rb of (ret_val, b) \<Rightarrow>
        if collidepoint (rect b) (pos ev)
        then (if etype ev = MOUSEMOTION then (ret_val @ [''move''], b)
              else if etype ev = MOUSEBUTTONDOWN
              then (ret_val @ [''down''],
                    b\<lparr>buttonDown := True, lastMouseDownOverButton := True\<rparr>)
              else (ret_val, b))
        else (if etype ev = MOUSEBUTTONUP \<or> etype ev = MOUSEBUTTONDOWN
              then (ret_val, b\<lparr>lastMouseDownOverButton := False\<rparr>)
              else (ret_val, b)))"

definition mouse_up_block :: "event \<Rightarrow> string list \<times> pygbutton \<Rightarrow> string list \<times> pygbutton" where
  "mouse_up_block ev rb =
     (case rb of (ret_val, b) \<Rightarrow>
        if etype ev = MOUSEBUTTONUP
        then (let do_mouse_click = lastMouseDownOverButton b;
                  b1 = b\<lparr>lastMouseDownOverButton := False\<rparr>;
                  (ret1, b2) = (if buttonDown b1
                                then (ret_val @ [''up''], b1\<lparr>buttonDown := False\<rparr>)
                                else (ret_val, b1))
              in if do_mouse_click
                 then (ret1 @ [''click''], b2\<lparr>buttonDown := False\<rparr>)
                 else (ret1, b2))
        else (ret_val, b))"

definition handle_event :: "event \<Rightarrow> pygbutton \<Rightarrow> string list \<times> pygbutton" where
  "handle_event ev b =
     (if etype ev \<notin> {MOUSEMOTION, MOUSEBUTTONUP, MOUSEBUTTONDOWN} \<or> \<not> visible b
      then ([], b)
      else (case enter_exit ev b of (ret0, has_exited, b0) \<Rightarrow>
              (case mouse_up_block ev (over_button ev (ret0, b0)) of (ret_val, b') \<Rightarrow>
                 if has_exited then (ret_val @ [''exit''], b') else (ret_val, b'))))"

text \<open>Feeding a sequence of events, one call each; the result lists are kept per call.\<close>

fun handle_events :: "event list \<Rightarrow> pygbutton \<Rightarrow> string list list \<times> pygbutton" where
  "handle_events [] b = ([], b)"
| "handle_events (ev # evs) b =
     (case handle_event ev b of (r, b') \<Rightarrow>
        (case handle_events evs b' of (rs, b'') \<Rightarrow> (r # rs, b'')))"

section \<open>Appearance: _update, set_surfaces, the property setters, the constructor\<close>

text \<open>
  A method that raises leaves the object as it was at the raise, so a failing call
  returns the error together with that state.
\<close>

type_synonym outcome = "(error \<times> pygbutton) + pygbutton"

text \<open>
  \<^verbatim>\<open>int(w / 2)\<close>: true division, then truncation towards zero.
\<close>

definition int_half :: "int \<Rightarrow> int" where
  "int_half w = (if 0 \<le> w then w div 2 else - ((- w) div 2))"

definition draw_all :: "surface \<Rightarrow> draw_op list \<Rightarrow> surface" where
  "draw_all s ds = foldl Drawn s ds"

definition normal_border :: "int \<Rightarrow> int \<Rightarrow> draw_op list" where
  "normal_border w h =
     [DrawRect BLACK (Rect 0 0 w h) 1,
      DrawLine WHITE (1, 1) (w - 2, 1),
      DrawLine WHITE (1, 1) (1, h - 2),
      DrawLine DARKGRAY (1, h - 1) (w - 1, h - 1),
      DrawLine DARKGRAY (w - 1, 1) (w - 1, h - 1),
      DrawLine GRAY (2, h - 2) (w - 2, h - 2),
      DrawLine GRAY (w - 2, 2) (w - 2, h - 2)]"

definition down_border :: "int \<Rightarrow> int \<Rightarrow> draw_op list" where
  "down_border w h =
     [DrawRect BLACK (Rect 0 0 w h) 1,
      DrawLine WHITE (1, 1) (w - 2, 1),
      DrawLine WHITE (1, 1) (1, h - 2),
      DrawLine DARKGRAY (1, h - 2) (1, 1),
      DrawLine DARKGRAY (1, 1) (w - 2, 1),
      DrawLine GRAY (2, h - 3) (2, 2),
      DrawLine GRAY (2, 2) (w - 3, 2)]"

definition update_custom :: "pygbutton \<Rightarrow> outcome" where
  "update_custom b =
     (case origSurfaceNormal b of
        None \<Rightarrow> Inl (AttributeError, b)
      | Some n \<Rightarrow>
          (let b1 = b\<lparr>surfaceNormal := Some (Smoothscale n (rect_size (rect b)))\<rparr> in
           case origSurfaceDown b1 of
             None \<Rightarrow> Inl (AttributeError, b1)
           | Some d \<Rightarrow>
               (let b2 = b1\<lparr>surfaceDown := Some (Smoothscale d (rect_size (rect b1)))\<rparr> in
                case origSurfaceHighlight b2 of
                  None \<Rightarrow> Inl (AttributeError, b2)
                | Some h \<Rightarrow>
                    Inr (b2\<lparr>surfaceHighlight :=
                               Some (Smoothscale h (rect_size (rect b2)))\<rparr>))))"

definition update_text :: "pygbutton \<Rightarrow> outcome" where
  "update_text b =
     (let w = rect_width (rect b); h = rect_height (rect b) in
      case surfaceNormal b of
        None \<Rightarrow> Inl (AttributeError, b)
      | Some n \<Rightarrow>
          (let b1 = b\<lparr>surfaceNormal := Some (Drawn n (Fill (bgcolor b)))\<rparr> in
           case surfaceDown b1 of
             None \<Rightarrow> Inl (AttributeError, b1)
           | Some d \<Rightarrow>
               (let b2 = b1\<lparr>surfaceDown := Some (Drawn d (Fill (bgcolor b1)))\<rparr> in
                case surfaceHighlight b2 of
                  None \<Rightarrow> Inl (AttributeError, b2)
                | Some hl \<Rightarrow>
                    (let cap = BlitCaption (font b2) (caption b2) (fgcolor b2) (bgcolor b2)
                                 (int_half w, int_half h);
                         n' = draw_all (Drawn n (Fill (bgcolor b))) (cap # normal_border w h);
                         d' = draw_all (Drawn d (Fill (bgcolor b1))) (cap # down_border w h)
                     in Inr (b2\<lparr>surfaceNormal := Some n', surfaceDown := Some d',
                                 surfaceHighlight := Some n'\<rparr>)))))"

definition update :: "pygbutton \<Rightarrow> outcome" where
  "update b = (if customSurfaces b then update_custom b else update_text b)"

text \<open>
  An argument of \<^verbatim>\<open>set_surfaces\<close> is a file name or a surface object.
  \<^verbatim>\<open>pygame.image.load\<close> is the parameter \<open>load\<close>; \<open>None\<close> is a file it cannot read.
  Only an argument that is a string is stored in its \<^verbatim>\<open>origSurface...\<close> attribute.
\<close>

datatype image_arg = Filename string | SurfaceObj surface

fun load_arg ::
  "(string \<Rightarrow> surface option) \<Rightarrow> image_arg \<Rightarrow> surface option \<Rightarrow> error + surface option" where
  "load_arg load (Filename f) cur =
     (case load f of None \<Rightarrow> Inl PygameError | Some s \<Rightarrow> Inr (Some s))"
| "load_arg load (SurfaceObj s) cur = Inr cur"

text \<open>
  The test \<^verbatim>\<open>a.get_size() != b.get_size() != c.get_size()\<close> is a chained comparison:
  \<^verbatim>\<open>a != b and b != c\<close>, where the third size is read only if the first two differ.
\<close>

definition sizes_differ :: "pygbutton \<Rightarrow> error + bool" where
  "sizes_differ b =
     (case origSurfaceNormal b of
        None \<Rightarrow> Inl AttributeError
      | Some n \<Rightarrow>
          (case origSurfaceDown b of
             None \<Rightarrow> Inl AttributeError
           | Some d \<Rightarrow>
               if get_size n \<noteq> get_size d
               then (case origSurfaceHighlight b of
                       None \<Rightarrow> Inl AttributeError
                     | Some h \<Rightarrow> Inr (get_size d \<noteq> get_size h))
               else Inr False))"

definition install_surfaces :: "pygbutton \<Rightarrow> outcome" where
  "install_surfaces b =
     (case origSurfaceNormal b of
        None \<Rightarrow> Inl (AttributeError, b)
      | Some n \<Rightarrow>
          (let b1 = b\<lparr>surfaceNormal := Some n\<rparr> in
           case origSurfaceDown b1 of
             None \<Rightarrow> Inl (AttributeError, b1)
           | Some d \<Rightarrow>
               (let b2 = b1\<lparr>surfaceDown := Some d\<rparr> in
                case origSurfaceHighlight b2 of
                  None \<Rightarrow> Inl (AttributeError, b2)
                | Some h \<Rightarrow>
                    Inr (b2\<lparr>surfaceHighlight := Some h,
                             customSurfaces := True,
                             rect := Rect (rect_left (rect b2)) (rect_top (rect b2))
                                       (get_width n) (get_height n)\<rparr>))))"

definition set_surfaces ::
  "(string \<Rightarrow> surface option) \<Rightarrow> image_arg \<Rightarrow> image_arg option \<Rightarrow> image_arg option \<Rightarrow>
     pygbutton \<Rightarrow> outcome" where
  "set_surfaces load normal_surface down_arg highlight_arg b =
     (let down_surface = (case down_arg of None \<Rightarrow> normal_surface | Some d \<Rightarrow> d);
          highlight_surface = (case highlight_arg of None \<Rightarrow> normal_surface | Some h \<Rightarrow> h)
      in
      case load_arg load normal_surface (origSurfaceNormal b) of
        Inl e \<Rightarrow> Inl (e, b)
      | Inr n \<Rightarrow>
          (let b1 = b\<lparr>origSurfaceNormal := n\<rparr> in
           case load_arg load down_surface (origSurfaceDown b1) of
             Inl e \<Rightarrow> Inl (e, b1)
           | Inr d \<Rightarrow>
               (let b2 = b1\<lparr>origSurfaceDown := d\<rparr> in
                case load_arg load highlight_surface (origSurfaceHighlight b2) of
                  Inl e \<Rightarrow> Inl (e, b2)
                | Inr h \<Rightarrow>
                    (let b3 = b2\<lparr>origSurfaceHighlight := h\<rparr> in
                     case sizes_differ b3 of
                       Inl e \<Rightarrow> Inl (e, b3)
                     | Inr True \<Rightarrow> Inl (Exception_foo, b3)
                     | Inr False \<Rightarrow> install_surfaces b3))))"

definition prop_set_caption :: "string \<Rightarrow> pygbutton \<Rightarrow> outcome" where
  "prop_set_caption caption_text b =
     update (b\<lparr>customSurfaces := False, caption := caption_text\<rparr>)"

definition prop_set_rect :: "pyrect \<Rightarrow> pygbutton \<Rightarrow> outcome" where
  "prop_set_rect new_rect b =
     (case update b of
        Inl e \<Rightarrow> Inl e
      | Inr b' \<Rightarrow> Inr (b'\<lparr>rect := new_rect\<rparr>))"

definition prop_set_visible :: "bool \<Rightarrow> pygbutton \<Rightarrow> pygbutton" where
  "prop_set_visible setting b = b\<lparr>visible := setting\<rparr>"

definition prop_set_fg_color :: "color \<Rightarrow> pygbutton \<Rightarrow> outcome" where
  "prop_set_fg_color setting b =
     update (b\<lparr>customSurfaces := False, fgcolor := setting\<rparr>)"

definition prop_set_bg_color :: "color \<Rightarrow> pygbutton \<Rightarrow> outcome" where
  "prop_set_bg_color setting b =
     update (b\<lparr>customSurfaces := False, bgcolor := setting\<rparr>)"

definition prop_set_font :: "font \<Rightarrow> pygbutton \<Rightarrow> outcome" where
  "prop_set_font setting b =
     update (b\<lparr>customSurfaces := False, font := setting\<rparr>)"

text \<open>
  The constructor. An exception inside \<^verbatim>\<open>__init__\<close> leaves no object, so only the
  error is returned.
\<close>

definition init ::
  "(string \<Rightarrow> surface option) \<Rightarrow> pyrect option \<Rightarrow> string \<Rightarrow> color \<Rightarrow> color \<Rightarrow> font option \<Rightarrow>
     image_arg option \<Rightarrow> image_arg option \<Rightarrow> image_arg option \<Rightarrow> error + pygbutton" where
  "init load rect_arg caption_arg bg fg font_arg normal down highlight =
     (let r = (case rect_arg of None \<Rightarrow> Rect 0 0 30 60 | Some r' \<Rightarrow> r');
          b = \<lparr>rect = r, caption = caption_arg, bgcolor = bg, fgcolor = fg,
               font = (case font_arg of None \<Rightarrow> PYGBUTTON_FONT | Some f \<Rightarrow> f),
               buttonDown = False, mouseOverButton = False,
               lastMouseDownOverButton = False, visible = True, customSurfaces = False,
               surfaceNormal = None, surfaceDown = None, surfaceHighlight = None,
               origSurfaceNormal = None, origSurfaceDown = None,
               origSurfaceHighlight = None\<rparr>;
          res = (case normal of
                   None \<Rightarrow>
                     update (b\<lparr>surfaceNormal := Some (Blank (rect_size r)),
                                surfaceDown := Some (Blank (rect_size r)),
                                surfaceHighlight := Some (Blank (rect_size r))\<rparr>)
                 | Some n \<Rightarrow> set_surfaces load n down highlight b)
      in case res of Inl (e, b') \<Rightarrow> Inl e | Inr b' \<Rightarrow> Inr b')"

section \<open>Fixtures and auxiliary predicates\<close>

text \<open>
  Concrete inputs for the scenarios: a pointer event at a position, a text button built
  by the constructor with rectangle (0, 0, 100, 40), the same button after a press at
  (50, 20), three picture files of different sizes, and a button built from one of them.
\<close>

definition mouse_event :: "event_type \<Rightarrow> int \<Rightarrow> int \<Rightarrow> event" where
  "mouse_event t x y = \<lparr>etype = t, pos = (x, y)\<rparr>"

definition no_files :: "string \<Rightarrow> surface option" where
  "no_files f = None"

definition demo_button :: pygbutton where
  "demo_button =
     projr (init no_files (Some (Rect 0 0 100 40)) '''' LIGHTGRAY BLACK None None None None)"

definition pressed_button :: pygbutton where
  "pressed_button = snd (handle_event (mouse_event MOUSEBUTTONDOWN 50 20) demo_button)"

definition demo_files :: "string \<Rightarrow> surface option" where
  "demo_files f =
     (if f = ''small.png'' then Some (Picture ''small.png'' (10, 10))
      else if f = ''big.png'' then Some (Picture ''big.png'' (20, 20))
      else if f = ''wide.png'' then Some (Picture ''wide.png'' (30, 10))
      else None)"

definition image_button :: pygbutton where
  "image_button =
     projr (init demo_files (Some (Rect 5 5 1 1)) '''' LIGHTGRAY BLACK None
              (Some (Filename ''small.png'')) None None)"

text \<open>
  No click is pending: the button is invisible (and so ignores every event) or its
  \<^verbatim>\<open>lastMouseDownOverButton\<close> flag is off.
\<close>

definition no_pending :: "pygbutton \<Rightarrow> bool" where
  "no_pending b = (\<not> visible b \<or> \<not> lastMouseDownOverButton b)"

text \<open>
  Reading a list of signals from left to right while remembering whether the pointer is
  over the button: \<open>None\<close> as soon as an \<^verbatim>\<open>enter\<close> arrives while it is already over.
\<close>

fun track :: "bool \<Rightarrow> string list \<Rightarrow> bool option" where
  "track over [] = Some over"
| "track over (x # xs) =
     (if x = ''enter'' then (if over then None else track True xs)
      else if x = ''exit'' then track False xs
      else track over xs)"

section \<open>Basic facts about handle_event\<close>

lemmas he_defs = handle_event_def enter_exit_def over_button_def mouse_up_block_def

lemma handle_event_frame:
  "rect (snd (handle_event ev b)) = rect b \<and> visible (snd (handle_event ev b)) = visible b"
  by (simp add: he_defs Let_def split: prod.splits)

lemma snd_handle_events_Cons:
  "snd (handle_events (ev # evs) b) = snd (handle_events evs (snd (handle_event ev b)))"
  by (simp split: prod.splits)

lemma fst_handle_events_Cons:
  "fst (handle_events (ev # evs) b) =
     fst (handle_event ev b) # fst (handle_events evs (snd (handle_event ev b)))"
  by (simp split: prod.splits)

lemma handle_events_frame:
  "rect (snd (handle_events evs b)) = rect b \<and> visible (snd (handle_events evs b)) = visible b"
proof (induction evs arbitrary: b)
  case Nil
  show ?case by simp
next
  case (Cons ev evs)
  have "rect (snd (handle_event ev b)) = rect b \<and> visible (snd (handle_event ev b)) = visible b"
    by (rule handle_event_frame)
  then show ?case
    using Cons.IH [of "snd (handle_event ev b)"] by (simp only: snd_handle_events_Cons)
qed

lemma handle_events_append:
  "handle_events (xs @ ys) b =
     (fst (handle_events xs b) @ fst (handle_events ys (snd (handle_events xs b))),
      snd (handle_events ys (snd (handle_events xs b))))"
  by (induction xs arbitrary: b) (simp_all split: prod.splits)

lemma demo_button_fields:
  "rect demo_button = Rect 0 0 100 40 \<and> visible demo_button \<and> \<not> mouseOverButton demo_button
     \<and> \<not> buttonDown demo_button \<and> \<not> lastMouseDownOverButton demo_button"
  by (simp add: demo_button_def init_def update_def update_text_def Let_def)

lemma pressed_button_fields:
  "rect pressed_button = Rect 0 0 100 40 \<and> visible pressed_button
     \<and> mouseOverButton pressed_button \<and> buttonDown pressed_button
     \<and> lastMouseDownOverButton pressed_button"
  using demo_button_fields
  by (simp add: pressed_button_def he_defs Let_def mouse_event_def collidepoint_def Rect_def)

lemma release_over_pressed_button:
  "fst (handle_event (mouse_event MOUSEBUTTONUP 50 20) pressed_button) = [''up'', ''click'']"
  using pressed_button_fields
  by (simp add: he_defs Let_def mouse_event_def collidepoint_def Rect_def)

section \<open>C1: the size test of set_surfaces\<close>

text \<open>
  C1 says that \<^verbatim>\<open>set_surfaces\<close> raises exactly when the three images are not all of
  one size. The class docstring asks for the same ("must all be the same size as each
  other"), but the chained comparison only rejects the images when the normal and the
  down image differ and the down and the highlight image differ as well. With
  \<^verbatim>\<open>small.png\<close> (10 x 10) as normal and down image and \<^verbatim>\<open>big.png\<close> (20 x 20) as
  highlight image the call succeeds and installs surfaces of two different sizes.
\<close>

theorem set_surfaces_unequal_sizes_accepted:
  "set_surfaces demo_files (Filename ''small.png'') (Some (Filename ''small.png''))
       (Some (Filename ''big.png'')) demo_button =
     Inr (demo_button\<lparr>
       origSurfaceNormal := Some (Picture ''small.png'' (10, 10)),
       origSurfaceDown := Some (Picture ''small.png'' (10, 10)),
       origSurfaceHighlight := Some (Picture ''big.png'' (20, 20)),
       surfaceNormal := Some (Picture ''small.png'' (10, 10)),
       surfaceDown := Some (Picture ''small.png'' (10, 10)),
       surfaceHighlight := Some (Picture ''big.png'' (20, 20)),
       customSurfaces := True,
       rect := Rect 0 0 10 10\<rparr>)"
  using demo_button_fields
  by (simp add: set_surfaces_def demo_files_def sizes_differ_def install_surfaces_def Let_def
        get_width_def get_height_def Rect_def)

text \<open>
  A second way in which the call departs from C1: an argument that is a surface object
  is never stored, so on a text button three equal surfaces end in \<^verbatim>\<open>AttributeError\<close>.
\<close>

lemma set_surfaces_surface_object_unread:
  "set_surfaces load (SurfaceObj (Blank (10, 10))) None None demo_button =
     Inl (AttributeError, demo_button)"
  by (simp add: set_surfaces_def sizes_differ_def Let_def
        demo_button_def init_def update_def update_text_def)

section \<open>C2: press outside, move inside, release inside\<close>

text \<open>
  C2, as amended: for a visible idle button with rectangle (0, 0, 100, 40), the events
  down at (200, 200), move at (50, 20), up at (50, 20) return \<open>[]\<close>, then
  \<open>[enter, move]\<close>, then \<open>[]\<close>: the release gives neither \<^verbatim>\<open>up\<close> nor \<^verbatim>\<open>click\<close>,
  because \<^verbatim>\<open>up\<close> is only emitted while \<^verbatim>\<open>buttonDown\<close> is set.
\<close>

theorem scenario_press_outside_move_release:
  assumes "rect b = Rect 0 0 100 40" and "visible b" and "\<not> mouseOverButton b"
    and "\<not> buttonDown b" and "\<not> lastMouseDownOverButton b"
  shows "fst (handle_events [mouse_event MOUSEBUTTONDOWN 200 200,
            mouse_event MOUSEMOTION 50 20, mouse_event MOUSEBUTTONUP 50 20] b) =
         [[], [''enter'', ''move''], []]"
  using assms
  by (simp add: he_defs Let_def mouse_event_def collidepoint_def Rect_def split: prod.splits)

text \<open>Witness for C2: the button built by the constructor.\<close>

theorem scenario_press_outside_move_release_witness:
  "rect demo_button = Rect 0 0 100 40 \<and> visible demo_button \<and> \<not> mouseOverButton demo_button
     \<and> \<not> buttonDown demo_button \<and> \<not> lastMouseDownOverButton demo_button
     \<and> fst (handle_events [mouse_event MOUSEBUTTONDOWN 200 200,
            mouse_event MOUSEMOTION 50 20, mouse_event MOUSEBUTTONUP 50 20] demo_button) =
         [[], [''enter'', ''move''], []]"
  using scenario_press_outside_move_release [of demo_button] demo_button_fields by simp

text \<open>
  Counterexample to C2 as stated: on that button the list returned for the third event
  does not contain \<^verbatim>\<open>up\<close>.
\<close>

theorem scenario_release_without_up:
  "rect demo_button = Rect 0 0 100 40 \<and> visible demo_button \<and> \<not> mouseOverButton demo_button
     \<and> \<not> buttonDown demo_button \<and> \<not> lastMouseDownOverButton demo_button
     \<and> ''up'' \<notin> set (fst (handle_events [mouse_event MOUSEBUTTONDOWN 200 200,
            mouse_event MOUSEMOTION 50 20, mouse_event MOUSEBUTTONUP 50 20] demo_button) ! 2)"
  using demo_button_fields
  by (simp add: he_defs Let_def mouse_event_def collidepoint_def Rect_def split: prod.splits)

section \<open>C3: the state after a failed set_surfaces\<close>

lemma set_surfaces_mismatch_eval:
  "set_surfaces demo_files (Filename ''small.png'') (Some (Filename ''big.png''))
       (Some (Filename ''wide.png'')) demo_button =
     Inl (Exception_foo, demo_button\<lparr>
       origSurfaceNormal := Some (Picture ''small.png'' (10, 10)),
       origSurfaceDown := Some (Picture ''big.png'' (20, 20)),
       origSurfaceHighlight := Some (Picture ''wide.png'' (30, 10))\<rparr>)"
  by (simp add: set_surfaces_def demo_files_def sizes_differ_def Let_def
        demo_button_def init_def update_def update_text_def)

lemma demo_button_no_orig: "origSurfaceNormal demo_button = None"
  by (simp add: demo_button_def init_def update_def update_text_def Let_def)

text \<open>
  C3, as amended: when \<^verbatim>\<open>set_surfaces\<close> fails with the size error, the button is as
  before the call except for the three stored source images \<^verbatim>\<open>origSurface...\<close>, which
  the call assigns before it compares the sizes. The rectangle, the mode flag, the three
  displayed surfaces and every other attribute are unchanged.
\<close>

theorem set_surfaces_failure_frame:
  "set_surfaces load n d h b = Inl (Exception_foo, b') \<Longrightarrow>
     b' = b\<lparr>origSurfaceNormal := origSurfaceNormal b',
            origSurfaceDown := origSurfaceDown b',
            origSurfaceHighlight := origSurfaceHighlight b'\<rparr>"
  by (auto simp: set_surfaces_def install_surfaces_def Let_def
        split: sum.splits option.splits bool.splits if_splits)

text \<open>Witness for C3: three files of three sizes, given to the text button.\<close>

theorem set_surfaces_failure_frame_witness:
  "set_surfaces demo_files (Filename ''small.png'') (Some (Filename ''big.png''))
       (Some (Filename ''wide.png'')) demo_button =
     Inl (Exception_foo, demo_button\<lparr>
       origSurfaceNormal := Some (Picture ''small.png'' (10, 10)),
       origSurfaceDown := Some (Picture ''big.png'' (20, 20)),
       origSurfaceHighlight := Some (Picture ''wide.png'' (30, 10))\<rparr>)
   \<and> rect (demo_button\<lparr>
       origSurfaceNormal := Some (Picture ''small.png'' (10, 10)),
       origSurfaceDown := Some (Picture ''big.png'' (20, 20)),
       origSurfaceHighlight := Some (Picture ''wide.png'' (30, 10))\<rparr>) = rect demo_button"
  using set_surfaces_failure_frame [OF set_surfaces_mismatch_eval] set_surfaces_mismatch_eval
  by simp

text \<open>
  Counterexample to C3 as stated: the same call fails with the size error and leaves a
  button that differs from the one before the call.
\<close>

theorem set_surfaces_failure_changes_state:
  "isl (set_surfaces demo_files (Filename ''small.png'') (Some (Filename ''big.png''))
          (Some (Filename ''wide.png'')) demo_button)
   \<and> fst (projl (set_surfaces demo_files (Filename ''small.png'') (Some (Filename ''big.png''))
          (Some (Filename ''wide.png'')) demo_button)) = Exception_foo
   \<and> snd (projl (set_surfaces demo_files (Filename ''small.png'') (Some (Filename ''big.png''))
          (Some (Filename ''wide.png'')) demo_button)) \<noteq> demo_button"
proof -
  have "origSurfaceNormal (demo_button\<lparr>
       origSurfaceNormal := Some (Picture ''small.png'' (10, 10)),
       origSurfaceDown := Some (Picture ''big.png'' (20, 20)),
       origSurfaceHighlight := Some (Picture ''wide.png'' (30, 10))\<rparr>)
       \<noteq> origSurfaceNormal demo_button"
    using demo_button_no_orig by simp
  then have "demo_button\<lparr>
       origSurfaceNormal := Some (Picture ''small.png'' (10, 10)),
       origSurfaceDown := Some (Picture ''big.png'' (20, 20)),
       origSurfaceHighlight := Some (Picture ''wide.png'' (30, 10))\<rparr> \<noteq> demo_button"
    by metis
  then show ?thesis by (simp add: set_surfaces_mismatch_eval)
qed

section \<open>C4: a release clears the pending click\<close>

text \<open>
  C4, as amended: for every visible button and every release event, the flag
  \<^verbatim>\<open>lastMouseDownOverButton\<close> is off after \<^verbatim>\<open>handle_event\<close>, wherever the release was.
\<close>

theorem release_clears_pending_visible:
  "visible b \<Longrightarrow> etype ev = MOUSEBUTTONUP \<Longrightarrow>
     \<not> lastMouseDownOverButton (snd (handle_event ev b))"
  by (simp add: he_defs Let_def split: prod.splits)

text \<open>Witness for C4: a release over the pressed button.\<close>

theorem release_clears_pending_visible_witness:
  "visible pressed_button \<and> etype (mouse_event MOUSEBUTTONUP 50 20) = MOUSEBUTTONUP
     \<and> \<not> lastMouseDownOverButton
           (snd (handle_event (mouse_event MOUSEBUTTONUP 50 20) pressed_button))"
  using release_clears_pending_visible [of pressed_button "mouse_event MOUSEBUTTONUP 50 20"]
    pressed_button_fields
  by (simp add: mouse_event_def)

text \<open>
  Counterexample to C4 as stated: the button is pressed, then hidden with the
  \<^verbatim>\<open>visible\<close> setter; the release is ignored and the flag stays on.
\<close>

theorem release_invisible_keeps_pending:
  "etype (mouse_event MOUSEBUTTONUP 50 20) = MOUSEBUTTONUP
   \<and> lastMouseDownOverButton
       (snd (handle_event (mouse_event MOUSEBUTTONUP 50 20)
               (prop_set_visible False pressed_button)))"
  using pressed_button_fields
  by (simp add: handle_event_def prop_set_visible_def mouse_event_def)

section \<open>C5: press outside, release inside\<close>

lemma press_outside_no_pending:
  "etype ev = MOUSEBUTTONDOWN \<Longrightarrow> \<not> collidepoint (rect b) (pos ev) \<Longrightarrow>
     no_pending (snd (handle_event ev b))"
  by (simp add: he_defs no_pending_def Let_def split: prod.splits)

lemma no_pending_step:
  "no_pending b \<Longrightarrow> \<not> (etype ev = MOUSEBUTTONDOWN \<and> collidepoint (rect b) (pos ev)) \<Longrightarrow>
     no_pending (snd (handle_event ev b))"
  by (auto simp: he_defs no_pending_def Let_def split: prod.splits)

lemma no_pending_steps:
  "no_pending b \<Longrightarrow>
   \<forall>e \<in> set evs. \<not> (etype e = MOUSEBUTTONDOWN \<and> collidepoint (rect b) (pos e)) \<Longrightarrow>
     no_pending (snd (handle_events evs b))"
proof (induction evs arbitrary: b)
  case Nil
  then show ?case by simp
next
  case (Cons ev evs)
  have r: "rect (snd (handle_event ev b)) = rect b"
    using handle_event_frame by simp
  have "no_pending (snd (handle_event ev b))"
    using Cons.prems no_pending_step [of b ev] by simp
  then have "no_pending (snd (handle_events evs (snd (handle_event ev b))))"
    using Cons.IH [of "snd (handle_event ev b)"] Cons.prems r by simp
  then show ?case by (simp only: snd_handle_events_Cons)
qed

lemma no_pending_no_click:
  "no_pending b \<Longrightarrow> ''click'' \<notin> set (fst (handle_event ev b))"
  by (auto simp: he_defs no_pending_def Let_def split: prod.splits if_splits)

text \<open>
  C5, as amended: in any sequence of events, if a press outside the rectangle is followed
  by events none of which is a press inside the rectangle, and then by a release inside
  the rectangle, the list returned for that release does not contain \<^verbatim>\<open>click\<close>.
\<close>

theorem press_outside_release_inside_no_click:
  assumes "etype press = MOUSEBUTTONDOWN" and "\<not> collidepoint (rect b) (pos press)"
    and "\<forall>e \<in> set mid. \<not> (etype e = MOUSEBUTTONDOWN \<and> collidepoint (rect b) (pos e))"
    and "etype release = MOUSEBUTTONUP" and "collidepoint (rect b) (pos release)"
  shows "''click'' \<notin> set (last (fst (handle_events (before @ [press] @ mid @ [release]) b)))"
proof -
  define b1 where "b1 = snd (handle_events before b)"
  define b2 where "b2 = snd (handle_event press b1)"
  define b3 where "b3 = snd (handle_events mid b2)"
  have r1: "rect b1 = rect b" unfolding b1_def using handle_events_frame by simp
  have r2: "rect b2 = rect b" unfolding b2_def using handle_event_frame r1 by simp
  have "no_pending b2"
    unfolding b2_def using press_outside_no_pending [of press b1] assms(1,2) r1 by simp
  then have np: "no_pending b3"
    unfolding b3_def using no_pending_steps [of b2 mid] assms(3) r2 by simp
  have "fst (handle_events (before @ [press] @ mid @ [release]) b) =
          fst (handle_events before b) @ [fst (handle_event press b1)] @
          fst (handle_events mid b2) @ [fst (handle_event release b3)]"
    by (simp add: handle_events_append b1_def b2_def b3_def split: prod.splits)
  then have "last (fst (handle_events (before @ [press] @ mid @ [release]) b)) =
          fst (handle_event release b3)"
    by simp
  then show ?thesis using no_pending_no_click [OF np] by simp
qed

text \<open>Witness for C5: press at (200, 200), move to (50, 20), release there.\<close>

theorem press_outside_release_inside_no_click_witness:
  "etype (mouse_event MOUSEBUTTONDOWN 200 200) = MOUSEBUTTONDOWN
   \<and> \<not> collidepoint (rect demo_button) (pos (mouse_event MOUSEBUTTONDOWN 200 200))
   \<and> etype (mouse_event MOUSEMOTION 50 20) \<noteq> MOUSEBUTTONDOWN
   \<and> etype (mouse_event MOUSEBUTTONUP 50 20) = MOUSEBUTTONUP
   \<and> collidepoint (rect demo_button) (pos (mouse_event MOUSEBUTTONUP 50 20))
   \<and> ''click'' \<notin> set (last (fst (handle_events ([] @ [mouse_event MOUSEBUTTONDOWN 200 200] @
         [mouse_event MOUSEMOTION 50 20] @ [mouse_event MOUSEBUTTONUP 50 20]) demo_button)))"
proof -
  have h1: "etype (mouse_event MOUSEBUTTONDOWN 200 200) = MOUSEBUTTONDOWN"
    by (simp add: mouse_event_def)
  have h2: "\<not> collidepoint (rect demo_button) (pos (mouse_event MOUSEBUTTONDOWN 200 200))"
    using demo_button_fields by (simp add: mouse_event_def collidepoint_def Rect_def)
  have h3: "\<forall>e \<in> set [mouse_event MOUSEMOTION 50 20].
      \<not> (etype e = MOUSEBUTTONDOWN \<and> collidepoint (rect demo_button) (pos e))"
    by (simp add: mouse_event_def)
  have h4: "etype (mouse_event MOUSEBUTTONUP 50 20) = MOUSEBUTTONUP"
    by (simp add: mouse_event_def)
  have h5: "collidepoint (rect demo_button) (pos (mouse_event MOUSEBUTTONUP 50 20))"
    using demo_button_fields by (simp add: mouse_event_def collidepoint_def Rect_def)
  have h6: "etype (mouse_event MOUSEMOTION 50 20) \<noteq> MOUSEBUTTONDOWN"
    by (simp add: mouse_event_def)
  show ?thesis
    using press_outside_release_inside_no_click [OF h1 h2 h3 h4 h5, of "[]"] h1 h2 h4 h5 h6
    by blast
qed

text \<open>
  Counterexample to C5 as stated: a press at (200, 200), outside, then a press at
  (50, 20), inside, then the next release, at (50, 20), inside. The release returns
  \<^verbatim>\<open>click\<close>.
\<close>

theorem press_outside_then_inside_click:
  "\<not> collidepoint (rect demo_button) (pos (mouse_event MOUSEBUTTONDOWN 200 200))
   \<and> collidepoint (rect demo_button) (pos (mouse_event MOUSEBUTTONUP 50 20))
   \<and> ''click'' \<in> set (last (fst (handle_events [mouse_event MOUSEBUTTONDOWN 200 200,
         mouse_event MOUSEBUTTONDOWN 50 20, mouse_event MOUSEBUTTONUP 50 20] demo_button)))"
  using demo_button_fields
  by (simp add: he_defs Let_def mouse_event_def collidepoint_def Rect_def split: prod.splits)

section \<open>C6: up comes before click\<close>

text \<open>
  C6: in the list returned by one call of \<^verbatim>\<open>handle_event\<close>, every position holding
  \<^verbatim>\<open>up\<close> is before every position holding \<^verbatim>\<open>click\<close>.
\<close>

theorem up_before_click:
  "handle_event ev b = (ret, b') \<Longrightarrow> i < length ret \<Longrightarrow> j < length ret \<Longrightarrow>
     ret ! i = ''up'' \<Longrightarrow> ret ! j = ''click'' \<Longrightarrow> i < j"
  by (auto simp: he_defs Let_def nth_Cons' nth_append split: if_splits prod.splits)

text \<open>Witness for C6: the release over the pressed button returns \<open>[up, click]\<close>.\<close>

theorem up_before_click_witness:
  "(0::nat) < length (fst (handle_event (mouse_event MOUSEBUTTONUP 50 20) pressed_button))
   \<and> (1::nat) < length (fst (handle_event (mouse_event MOUSEBUTTONUP 50 20) pressed_button))
   \<and> fst (handle_event (mouse_event MOUSEBUTTONUP 50 20) pressed_button) ! 0 = ''up''
   \<and> fst (handle_event (mouse_event MOUSEBUTTONUP 50 20) pressed_button) ! 1 = ''click''
   \<and> (0::nat) < 1"
proof -
  have "handle_event (mouse_event MOUSEBUTTONUP 50 20) pressed_button =
          (fst (handle_event (mouse_event MOUSEBUTTONUP 50 20) pressed_button),
           snd (handle_event (mouse_event MOUSEBUTTONUP 50 20) pressed_button))" by simp
  from up_before_click [OF this, of 0 1] release_over_pressed_button show ?thesis by simp
qed

section \<open>C7: no two enter signals without an exit between them\<close>

lemma track_append:
  "track over (xs @ ys) = (case track over xs of None \<Rightarrow> None | Some o' \<Rightarrow> track o' ys)"
  by (induction xs arbitrary: over) simp_all

lemma track_handle_event:
  "track (mouseOverButton b) (fst (handle_event ev b)) =
     Some (mouseOverButton (snd (handle_event ev b)))"
  by (simp add: he_defs Let_def split: prod.splits)

lemma track_handle_events:
  "track (mouseOverButton b) (concat (fst (handle_events evs b))) =
     Some (mouseOverButton (snd (handle_events evs b)))"
proof (induction evs arbitrary: b)
  case Nil
  show ?case by simp
next
  case (Cons ev evs)
  show ?case
    using Cons.IH [of "snd (handle_event ev b)"] track_handle_event [of b ev]
    by (simp add: fst_handle_events_Cons snd_handle_events_Cons track_append
          del: handle_events.simps)
qed

lemma track_over_needs_exit:
  "track True (ys @ ''enter'' # zs) \<noteq> None \<Longrightarrow> ''exit'' \<in> set ys"
  by (induction ys) (auto split: if_splits)

lemma track_after_enter:
  "track over (xs @ ''enter'' # rest) \<noteq> None \<Longrightarrow> track True rest \<noteq> None"
  by (induction xs arbitrary: over) (auto split: if_splits)

text \<open>
  C7: for every sequence of events and every starting state (the initial one among
  them), the concatenation of the returned lists cannot be split as
  \<open>xs @ enter # ys @ enter # zs\<close> with no \<^verbatim>\<open>exit\<close> in \<open>ys\<close>.
\<close>

theorem enter_needs_exit_between:
  "\<not> (\<exists>xs ys zs. concat (fst (handle_events evs b)) = xs @ ''enter'' # ys @ ''enter'' # zs
        \<and> ''exit'' \<notin> set ys)"
proof
  assume "\<exists>xs ys zs. concat (fst (handle_events evs b)) = xs @ ''enter'' # ys @ ''enter'' # zs
        \<and> ''exit'' \<notin> set ys"
  then obtain xs ys zs where
    eq: "concat (fst (handle_events evs b)) = xs @ ''enter'' # ys @ ''enter'' # zs"
    and ne: "''exit'' \<notin> set ys" by blast
  have "track (mouseOverButton b) (xs @ ''enter'' # ys @ ''enter'' # zs) \<noteq> None"
    using track_handle_events [of b evs] eq by simp
  then have "track True (ys @ ''enter'' # zs) \<noteq> None"
    by (rule track_after_enter)
  then have "''exit'' \<in> set ys" by (rule track_over_needs_exit)
  with ne show False by simp
qed

section \<open>C8: assigning a new rectangle\<close>

text \<open>
  C8 says that after the \<^verbatim>\<open>rect\<close> setter the three surfaces of an image button are
  the source images scaled to the new rectangle. The comment in the setter says that
  re-assigning the rectangle is how the button is updated, but the setter calls
  \<^verbatim>\<open>_update\<close> before it stores the new rectangle: the button built from
  \<^verbatim>\<open>small.png\<close> (10 x 10), given the rectangle (5, 5, 20, 20), has surfaces scaled to
  (10, 10), the size of the rectangle it had before.
\<close>

theorem prop_set_rect_scales_to_old_size:
  "prop_set_rect (Rect 5 5 20 20) image_button =
     Inr (image_button\<lparr>
       surfaceNormal := Some (Smoothscale (Picture ''small.png'' (10, 10)) (10, 10)),
       surfaceDown := Some (Smoothscale (Picture ''small.png'' (10, 10)) (10, 10)),
       surfaceHighlight := Some (Smoothscale (Picture ''small.png'' (10, 10)) (10, 10)),
       rect := Rect 5 5 20 20\<rparr>)"
  by (simp add: prop_set_rect_def update_def update_custom_def rect_size_def
      image_button_def init_def set_surfaces_def demo_files_def sizes_differ_def
      install_surfaces_def Let_def get_width_def get_height_def Rect_def)

section \<open>C9: ignored events\<close>

text \<open>
  C9: if the button is invisible or the event is not a pointer motion, press or release,
  \<^verbatim>\<open>handle_event\<close> returns the empty list and the button is unchanged.
\<close>

theorem ignored_event_no_effect:
  "\<not> visible b \<or> etype ev \<notin> {MOUSEMOTION, MOUSEBUTTONDOWN, MOUSEBUTTONUP} \<Longrightarrow>
     handle_event ev b = ([], b)"
  by (auto simp: handle_event_def)

text \<open>Witness for C9: an event of another type over the pressed button.\<close>

theorem ignored_event_no_effect_witness:
  "etype (mouse_event OTHEREVENT 50 20) \<notin> {MOUSEMOTION, MOUSEBUTTONDOWN, MOUSEBUTTONUP}
   \<and> handle_event (mouse_event OTHEREVENT 50 20) pressed_button = ([], pressed_button)"
  using ignored_event_no_effect [of pressed_button "mouse_event OTHEREVENT 50 20"]
  by (simp add: mouse_event_def)

section \<open>C10: the flags when up or click is returned\<close>

text \<open>
  C10: whenever the list returned by \<^verbatim>\<open>handle_event\<close> contains \<^verbatim>\<open>up\<close> or \<^verbatim>\<open>click\<close>,
  both \<^verbatim>\<open>buttonDown\<close> and \<^verbatim>\<open>lastMouseDownOverButton\<close> are off in the state it leaves.
\<close>

theorem up_or_click_flags_cleared:
  "handle_event ev b = (ret, b') \<Longrightarrow> ''up'' \<in> set ret \<or> ''click'' \<in> set ret \<Longrightarrow>
     \<not> buttonDown b' \<and> \<not> lastMouseDownOverButton b'"
  by (auto simp: he_defs Let_def split: prod.splits if_splits)

text \<open>Witness for C10: the release over the pressed button.\<close>

theorem up_or_click_flags_cleared_witness:
  "''up'' \<in> set (fst (handle_event (mouse_event MOUSEBUTTONUP 50 20) pressed_button))
   \<and> \<not> buttonDown (snd (handle_event (mouse_event MOUSEBUTTONUP 50 20) pressed_button))
   \<and> \<not> lastMouseDownOverButton
         (snd (handle_event (mouse_event MOUSEBUTTONUP 50 20) pressed_button))"
proof -
  have "handle_event (mouse_event MOUSEBUTTONUP 50 20) pressed_button =
          (fst (handle_event (mouse_event MOUSEBUTTONUP 50 20) pressed_button),
           snd (handle_event (mouse_event MOUSEBUTTONUP 50 20) pressed_button))" by simp
  from up_or_click_flags_cleared [OF this] release_over_pressed_button show ?thesis by simp
qed

end
